theory Spec2Isabelle
  imports Complex_Main
begin

section \<open>Numbers and arithmetic faults\<close>

text \<open>
  The calculator works on Python floats and ints.  Ints are \<open>int\<close>.  Floats are
  read in two ways.  In the exact reading, used where the result does not hang on
  rounding (which branch is taken, which fault is raised, what is passed on to what), a
  float is a real and the operations are exact.  In the double reading, given at the
  end of the definitions, every operation rounds its result to the nearest double; it
  is the one used where the result is a matter of the last bit.  The arithmetic faults
  that Python raises are values: a division by zero (also \<open>0.0 ** k\<close> for a negative
  \<open>k\<close>) is \<open>ZeroDivisionError\<close>, \<open>math.log\<close> of a non-positive argument is
  \<open>ValueError\<close>, a power that leaves the range of the doubles is \<open>OverflowError\<close>
  (in the double reading only).  A computation that raises is \<open>Inl\<close> of the fault and
  nothing after it is evaluated.
\<close>

datatype py_error = ZeroDivisionError | ValueError | OverflowError

definition and_then :: "py_error + 'a \<Rightarrow> ('a \<Rightarrow> py_error + 'b) \<Rightarrow> py_error + 'b" where
  "and_then m f = (case m of Inl e \<Rightarrow> Inl e | Inr v \<Rightarrow> f v)"

definition fdiv :: "real \<Rightarrow> real \<Rightarrow> py_error + real" where
  "fdiv a b = (if b = 0 then Inl ZeroDivisionError else Inr (a / b))"

definition fpow :: "real \<Rightarrow> int \<Rightarrow> py_error + real" where
  "fpow x k = (if x = 0 \<and> k < 0 then Inl ZeroDivisionError else Inr (power_int x k))"

definition flog :: "real \<Rightarrow> py_error + real" where
  "flog x = (if x \<le> 0 then Inl ValueError else Inr (ln x))"

section \<open>The financial functions\<close>

text \<open>
  \<^verbatim>\<open>
  def calculate_emi(principal, annual_rate, years):
      r = annual_rate / (12 * 100)
      n = years * 12
      if r == 0:
          emi = principal / n
      else:
          emi = principal * r * (1 + r)**n / ((1 + r)**n - 1)
      return emi, n, r
  \<close>
  The power is evaluated twice in the source, with the same operands; the model
  evaluates it once.  (\<open>princ\<close> is the source's \<open>principal\<close>.)
\<close>

definition calculate_emi :: "real \<Rightarrow> real \<Rightarrow> int \<Rightarrow> py_error + (real \<times> int \<times> real)" where
  "calculate_emi princ annual_rate years =
     (let r = annual_rate / (12 * 100);
          n = years * 12
      in and_then
           (if r = 0 then fdiv princ (of_int n)
            else and_then (fpow (1 + r) n)
                   (\<lambda>pw. fdiv (princ * r * pw) (pw - 1)))
           (\<lambda>emi. Inr (emi, n, r)))"

text \<open>
  \<^verbatim>\<open>
  def remaining_balance(P, r, emi, k):
      return P * (1 + r)**k - emi * ((1 + r)**k - 1) / r
  \<close>
\<close>

definition remaining_balance :: "real \<Rightarrow> real \<Rightarrow> real \<Rightarrow> int \<Rightarrow> py_error + real" where
  "remaining_balance P r emi k =
     and_then (fpow (1 + r) k)
       (\<lambda>pw. and_then (fdiv (emi * (pw - 1)) r)
          (\<lambda>q. Inr (P * pw - q)))"

text \<open>
  \<^verbatim>\<open>
  def future_value_monthly_sip(pmt, annual_return, months):
      r = annual_return / (12 * 100)
      if r == 0:
          return pmt * months
      return pmt * ((1 + r)**months - 1) / r
  \<close>
\<close>

definition future_value_monthly_sip :: "real \<Rightarrow> real \<Rightarrow> int \<Rightarrow> py_error + real" where
  "future_value_monthly_sip pmt annual_return months =
     (let r = annual_return / (12 * 100)
      in if r = 0 then Inr (pmt * of_int months)
         else and_then (fpow (1 + r) months) (\<lambda>pw. fdiv (pmt * (pw - 1)) r))"

text \<open>
  \<^verbatim>\<open>
  def npv_stream(payment, discount_rate, months):
      r = discount_rate / (12 * 100)
      if r == 0:
          return payment * months
      return payment * (1 - (1 + r)**(-months)) / r
  \<close>
\<close>

definition npv_stream :: "real \<Rightarrow> real \<Rightarrow> int \<Rightarrow> py_error + real" where
  "npv_stream payment discount_rate months =
     (let r = discount_rate / (12 * 100)
      in if r = 0 then Inr (payment * of_int months)
         else and_then (fpow (1 + r) (- months)) (\<lambda>pw. fdiv (payment * (1 - pw)) r))"

section \<open>The prepayment block\<close>

text \<open>
  The block of the second tab reads the globals \<open>loan_amount\<close>, \<open>emi\<close>, \<open>n\<close>, \<open>r\<close>
  and the two inputs of the tab.  It shows three metrics when the balance left after the
  prepayment is positive and nothing otherwise (there is no \<open>else\<close>): the result is
  \<open>Some\<close> of the metrics or \<open>None\<close>.
  \<^verbatim>\<open>
  k = prepay_year * 12
  balance_before = remaining_balance(loan_amount, r, emi, k)
  new_balance = balance_before - prepay_amount
  if new_balance > 0:
      new_n = math.log(emi / (emi - new_balance * r)) / math.log(1 + r)
      new_n = int(math.ceil(new_n))
      original_remaining = n - k
      new_remaining_payment = emi * new_n
      original_remaining_payment = emi * original_remaining
      interest_saved = original_remaining_payment - new_remaining_payment
      months_saved = original_remaining - new_n
  \<close>
\<close>

record prepayment_metrics =
  months_saved :: int
  prepay_interest_saved :: real
  new_n :: int

definition prepayment ::
  "real \<Rightarrow> real \<Rightarrow> int \<Rightarrow> real \<Rightarrow> int \<Rightarrow> real \<Rightarrow> py_error + prepayment_metrics option" where
  "prepayment loan_amount emi n r prepay_year prepay_amount =
     (let k = prepay_year * 12
      in and_then (remaining_balance loan_amount r emi k)
           (\<lambda>balance_before.
              let new_balance = balance_before - prepay_amount
              in if new_balance > 0 then
                   and_then (fdiv emi (emi - new_balance * r)) (\<lambda>q.
                   and_then (flog q) (\<lambda>l1.
                   and_then (flog (1 + r)) (\<lambda>l2.
                   and_then (fdiv l1 l2) (\<lambda>new_n_float.
                     let new_n = \<lceil>new_n_float\<rceil>;
                         original_remaining = n - k;
                         new_remaining_payment = emi * of_int new_n;
                         original_remaining_payment = emi * of_int original_remaining;
                         interest_saved = original_remaining_payment - new_remaining_payment;
                         months_saved = original_remaining - new_n
                     in Inr (Some \<lparr>months_saved = months_saved,
                                     prepay_interest_saved = interest_saved,
                                     new_n = new_n\<rparr>)))))
                 else Inr None))"

text \<open>The block from the raw inputs: the installment first, as the script computes it.\<close>

definition prepayment_impact ::
  "real \<Rightarrow> real \<Rightarrow> int \<Rightarrow> int \<Rightarrow> real \<Rightarrow> py_error + prepayment_metrics option" where
  "prepayment_impact loan_amount interest_rate remaining_years prepay_year prepay_amount =
     and_then (calculate_emi loan_amount interest_rate remaining_years)
       (\<lambda>(emi, n, r). prepayment loan_amount emi n r prepay_year prepay_amount)"

section \<open>Prepay versus invest\<close>

text \<open>
  The pay-down loop of the third tab, one iteration as \<open>payoff_step\<close>:
  \<^verbatim>\<open>
  balance = loan_amount
  months = 0
  total_payment_with_prepay = 0
  while balance > 0 and months < 1000:
      interest = balance * r
      payment = emi + extra_monthly
      principal_paid = payment - interest
      balance -= principal_paid
      total_payment_with_prepay += payment
      months += 1
  \<close>
\<close>

record payoff_state =
  balance :: real
  months :: nat
  total_payment_with_prepay :: real

definition payoff_step :: "real \<Rightarrow> real \<Rightarrow> real \<Rightarrow> payoff_state \<Rightarrow> payoff_state" where
  "payoff_step r emi extra_monthly s =
     (let interest = balance s * r;
          payment = emi + extra_monthly;
          principal_paid = payment - interest
      in \<lparr>balance = balance s - principal_paid,
          months = months s + 1,
          total_payment_with_prepay = total_payment_with_prepay s + payment\<rparr>)"

function payoff_loop :: "real \<Rightarrow> real \<Rightarrow> real \<Rightarrow> payoff_state \<Rightarrow> payoff_state" where
  "payoff_loop r emi extra_monthly s =
     (if balance s > 0 \<and> months s < 1000
      then payoff_loop r emi extra_monthly (payoff_step r emi extra_monthly s)
      else s)"
  by pat_completeness auto
termination
  by (relation "measure (\<lambda>(r, emi, extra_monthly, s). 1000 - months s)")
     (auto simp: payoff_step_def Let_def)

declare payoff_loop.simps [simp del]

definition payoff_start :: "real \<Rightarrow> payoff_state" where
  "payoff_start loan_amount =
     \<lparr>balance = loan_amount, months = 0, total_payment_with_prepay = 0\<rparr>"

text \<open>
  What follows the loop.  The recession button replaces the expected return by 5 before
  anything is computed from it.
  \<^verbatim>\<open>
  if st.button("Recession Shock"):
      expected_return = 5
  ...
  interest_saved = (emi*n - loan_amount) - (total_payment_with_prepay - loan_amount)
  years_saved = (n - months)/12
  fv = future_value_monthly_sip(extra_monthly, expected_return, n)
  ...
  if fv > interest_saved:
      st.success("INVESTING wins")
  else:
      st.warning("PREPAYING wins")
  \<close>
\<close>

datatype verdict = INVESTING_wins | PREPAYING_wins

text \<open>
  The variables the script holds after the block: those of the loop (\<open>loop_end\<close>),
  the three derived numbers and the verdict shown.
\<close>

record decision =
  loop_end :: payoff_state
  years_saved :: real
  interest_saved :: real
  fv :: real
  verdict :: verdict

definition prepay_vs_invest ::
  "real \<Rightarrow> real \<Rightarrow> int \<Rightarrow> real \<Rightarrow> real \<Rightarrow> real \<Rightarrow> bool \<Rightarrow> py_error + decision" where
  "prepay_vs_invest loan_amount emi n r extra_monthly expected_return shock =
     (let expected_return = (if shock then 5 else expected_return);
          s = payoff_loop r emi extra_monthly (payoff_start loan_amount);
          interest_saved = (emi * of_int n - loan_amount)
                             - (total_payment_with_prepay s - loan_amount);
          years_saved = of_int (n - int (months s)) / 12
      in and_then (future_value_monthly_sip extra_monthly expected_return n)
           (\<lambda>fv. Inr \<lparr>loop_end = s,
                        years_saved = years_saved,
                        interest_saved = interest_saved,
                        fv = fv,
                        verdict = (if fv > interest_saved then INVESTING_wins
                                   else PREPAYING_wins)\<rparr>))"

text \<open>The same from the raw inputs: the installment first, as the script computes it.\<close>

definition simulate_extra_payments ::
  "real \<Rightarrow> real \<Rightarrow> int \<Rightarrow> real \<Rightarrow> real \<Rightarrow> bool \<Rightarrow> py_error + decision" where
  "simulate_extra_payments loan_amount interest_rate remaining_years extra_monthly
        expected_return shock =
     and_then (calculate_emi loan_amount interest_rate remaining_years)
       (\<lambda>(emi, n, r). prepay_vs_invest loan_amount emi n r extra_monthly expected_return shock)"

section \<open>Buy versus rent\<close>

text \<open>
  \<^verbatim>\<open>
  emi_case, n_case, _ = calculate_emi(loan_amount, interest_rate, remaining_years)
  pv_buy = npv_stream(emi_case, discount_rate, n_case)
  pv_rent = npv_stream(rent, discount_rate, n_case)
  future_price = loan_amount*((1+price_growth/100)**remaining_years)
  pv_resale = future_price/((1+discount_rate/100)**remaining_years)
  diff = (pv_buy - pv_resale) - pv_rent
  \<close>
\<close>

definition resale_value :: "real \<Rightarrow> real \<Rightarrow> real \<Rightarrow> int \<Rightarrow> py_error + real" where
  "resale_value loan_amount growth discount_rate remaining_years =
     and_then (fpow (1 + growth / 100) remaining_years) (\<lambda>gp.
       let future_price = loan_amount * gp
       in and_then (fpow (1 + discount_rate / 100) remaining_years) (\<lambda>dp.
            fdiv future_price dp))"

definition buy_vs_rent ::
  "real \<Rightarrow> real \<Rightarrow> int \<Rightarrow> real \<Rightarrow> real \<Rightarrow> real \<Rightarrow> py_error + real" where
  "buy_vs_rent loan_amount interest_rate remaining_years rent discount_rate price_growth =
     and_then (calculate_emi loan_amount interest_rate remaining_years) (\<lambda>(emi_case, n_case, _).
     and_then (npv_stream emi_case discount_rate n_case) (\<lambda>pv_buy.
     and_then (npv_stream rent discount_rate n_case) (\<lambda>pv_rent.
     and_then (resale_value loan_amount price_growth discount_rate remaining_years) (\<lambda>pv_resale.
       Inr ((pv_buy - pv_resale) - pv_rent)))))"

text \<open>
  The heat map reuses \<open>n_case\<close> and \<open>pv_rent\<close> of the block above.  One cell, then the
  two nested loops; a fault in a cell ends the loops.
  \<^verbatim>\<open>
  rate_range = np.linspace(5, 15, 12)
  growth_range = np.linspace(0, 10, 12)
  heat = []
  for g in growth_range:
      row = []
      for rate in rate_range:
          emi_t, _, _ = calculate_emi(loan_amount, rate, remaining_years)
          pv_buy_t = npv_stream(emi_t, discount_rate, n_case)
          future_price_t = loan_amount * ((1 + g/100) ** remaining_years)
          pv_resale_t = future_price_t / ((1 + discount_rate/100) ** remaining_years)
          row.append((pv_buy_t - pv_resale_t) - pv_rent)
      heat.append(row)
  \<close>
\<close>

definition linspace :: "real \<Rightarrow> real \<Rightarrow> nat \<Rightarrow> real list" where
  "linspace start stop num =
     map (\<lambda>i. start + of_nat i * ((stop - start) / of_nat (num - 1))) [0..<num]"

definition heat_cell ::
  "real \<Rightarrow> int \<Rightarrow> real \<Rightarrow> int \<Rightarrow> real \<Rightarrow> real \<Rightarrow> real \<Rightarrow> py_error + real" where
  "heat_cell loan_amount remaining_years discount_rate n_case pv_rent g rate =
     and_then (calculate_emi loan_amount rate remaining_years) (\<lambda>(emi_t, _, _).
     and_then (npv_stream emi_t discount_rate n_case) (\<lambda>pv_buy_t.
     and_then (resale_value loan_amount g discount_rate remaining_years) (\<lambda>pv_resale_t.
       Inr ((pv_buy_t - pv_resale_t) - pv_rent))))"

fun heat_row ::
  "real \<Rightarrow> int \<Rightarrow> real \<Rightarrow> int \<Rightarrow> real \<Rightarrow> real \<Rightarrow> real list \<Rightarrow> py_error + real list" where
  "heat_row loan_amount remaining_years discount_rate n_case pv_rent g [] = Inr []"
| "heat_row loan_amount remaining_years discount_rate n_case pv_rent g (rate # rates) =
     and_then (heat_cell loan_amount remaining_years discount_rate n_case pv_rent g rate) (\<lambda>v.
     and_then (heat_row loan_amount remaining_years discount_rate n_case pv_rent g rates) (\<lambda>row.
       Inr (v # row)))"

fun heat_rows ::
  "real \<Rightarrow> int \<Rightarrow> real \<Rightarrow> int \<Rightarrow> real \<Rightarrow> real list \<Rightarrow> real list \<Rightarrow> py_error + real list list" where
  "heat_rows loan_amount remaining_years discount_rate n_case pv_rent rate_range [] = Inr []"
| "heat_rows loan_amount remaining_years discount_rate n_case pv_rent rate_range (g # gs) =
     and_then (heat_row loan_amount remaining_years discount_rate n_case pv_rent g rate_range) (\<lambda>row.
     and_then (heat_rows loan_amount remaining_years discount_rate n_case pv_rent rate_range gs) (\<lambda>heat.
       Inr (row # heat)))"

text \<open>
  The line plot between the differential and the heat map sweeps the rate alone; the
  body of its loop is the body of a heat map cell with \<open>price_growth\<close> for \<open>g\<close>.
  \<^verbatim>\<open>
  rates = np.linspace(2, 15, 25)
  vals = []
  for rate in rates:
      emi_t, _, _ = calculate_emi(loan_amount, rate, remaining_years)
      pv_buy_t = npv_stream(emi_t, discount_rate, n_case)
      future_price_t = loan_amount * ((1 + price_growth/100) ** remaining_years)
      pv_resale_t = future_price_t / ((1 + discount_rate/100) ** remaining_years)
      vals.append((pv_buy_t - pv_resale_t) - pv_rent)
  \<close>
  The whole case block: the differential at the inputs, the line plot, the grid.  (The
  sampled rates are numpy floats, for which a division by zero gives an infinity and
  not a fault; a sampled rate is never 0, so the divisor in \<open>calculate_emi\<close> can be
  zero only when \<open>n = 0\<close>, and then the first line of the block has raised already.)
\<close>

definition case_scenarios ::
  "real \<Rightarrow> real \<Rightarrow> int \<Rightarrow> real \<Rightarrow> real \<Rightarrow> real
     \<Rightarrow> py_error + (real \<times> real list \<times> real list list)" where
  "case_scenarios loan_amount interest_rate remaining_years rent discount_rate price_growth =
     and_then (calculate_emi loan_amount interest_rate remaining_years) (\<lambda>(emi_case, n_case, _).
     and_then (npv_stream emi_case discount_rate n_case) (\<lambda>pv_buy.
     and_then (npv_stream rent discount_rate n_case) (\<lambda>pv_rent.
     and_then (resale_value loan_amount price_growth discount_rate remaining_years) (\<lambda>pv_resale.
       let diff = (pv_buy - pv_resale) - pv_rent;
           rates = linspace 2 15 25
       in and_then (heat_row loan_amount remaining_years discount_rate n_case pv_rent
                      price_growth rates) (\<lambda>vals.
          let rate_range = linspace 5 15 12;
              growth_range = linspace 0 10 12
          in and_then (heat_rows loan_amount remaining_years discount_rate n_case pv_rent
                         rate_range growth_range)
               (\<lambda>heat. Inr (diff, vals, heat)))))))"

section \<open>The double reading\<close>

text \<open>
  A Python float is an IEEE 754 binary64 number: 53 significant bits, the last of them
  worth \<open>2 ^ e\<close> with \<open>e\<close> no less than -1074.  The operations \<open>+\<close>, \<open>-\<close>, \<open>*\<close> and
  \<open>/\<close> return the double nearest to the exact result, the even one of two equally
  near (\<open>fl\<close>).  A result that rounds to \<open>2 ^ 1024\<close> or beyond is an infinity in
  Python; the model has no infinities, and what is proved below stays in range.
\<close>

definition round_half_even :: "real \<Rightarrow> int" where
  "round_half_even x =
     (let f = \<lfloor>x\<rfloor>; d = x - of_int f
      in if d < 1 / 2 then f else if 1 / 2 < d then f + 1 else if even f then f else f + 1)"

definition ulp_exponent :: "real \<Rightarrow> int" where
  "ulp_exponent x = max (\<lfloor>log 2 \<bar>x\<bar>\<rfloor> - 52) (- 1074)"

definition fl :: "real \<Rightarrow> real" where
  "fl x = (if x = 0 then 0
           else of_int (round_half_even (x / 2 powi ulp_exponent x)) * 2 powi ulp_exponent x)"







section \<open>Basic facts\<close>

lemma and_then_Inl [simp]: "and_then (Inl e) f = Inl e"
  by (simp add: and_then_def)

lemma and_then_Inr [simp]: "and_then (Inr v) f = f v"
  by (simp add: and_then_def)

lemma fpow_nonneg: "0 \<le> k \<Longrightarrow> fpow x k = Inr (x ^ nat k)"
  by (simp add: fpow_def power_int_def)

lemma calculate_emi_positive_rate:
  assumes "0 < rate" "0 < years"
  shows "calculate_emi P rate years =
           Inr (P * (rate / 1200) * (1 + rate / 1200) ^ nat (years * 12)
                  / ((1 + rate / 1200) ^ nat (years * 12) - 1),
                years * 12, rate / 1200)"
proof -
  from assms have "1 < (1 + rate / 1200) ^ nat (years * 12)"
    by (intro one_less_power) auto
  then have "(1 + rate / 1200) ^ nat (years * 12) \<noteq> 1" by simp
  with assms show ?thesis
    by (simp add: calculate_emi_def fdiv_def fpow_nonneg Let_def)
qed

lemma remaining_balance_closed_form:
  "r \<noteq> 0 \<Longrightarrow>
   remaining_balance P r emi (int m) = Inr (P * (1 + r) ^ m - emi * ((1 + r) ^ m - 1) / r)"
  by (simp add: remaining_balance_def fpow_nonneg fdiv_def)



lemma payoff_loop_exit:
  "months s \<le> 1000 \<Longrightarrow>
   (balance (payoff_loop r emi extra s) \<le> 0 \<or> months (payoff_loop r emi extra s) = 1000)
   \<and> months s \<le> months (payoff_loop r emi extra s)"
proof (induction r emi extra s rule: payoff_loop.induct)
  case (1 r emi extra s)
  show ?case
  proof (cases "balance s > 0 \<and> months s < 1000")
    case True
    then have "months (payoff_step r emi extra s) \<le> 1000"
      and "months s \<le> months (payoff_step r emi extra s)"
      by (simp_all add: payoff_step_def Let_def)
    with "1.IH" [OF True] True show ?thesis
      by (subst (1 2 3) payoff_loop.simps) auto
  next
    case False
    with "1.prems" show ?thesis
      by (subst (1 2 3) payoff_loop.simps) auto
  qed
qed

lemma scheduled_balance:
  fixes P r pw :: real
  assumes "r \<noteq> 0" "pw \<noteq> 1"
  shows "P * x - (P * r * pw / (pw - 1)) * (x - 1) / r = P * (pw - x) / (pw - 1)"
  using assms by (simp add: field_simps)


lemma future_value_monthly_sip_returns:
  "0 \<le> k \<Longrightarrow> \<exists>v. future_value_monthly_sip pmt annual_return k = Inr v"
  by (simp add: future_value_monthly_sip_def fpow_nonneg fdiv_def Let_def)

lemma payoff_loop_never_pays_off:
  "0 \<le> r \<Longrightarrow> 0 < b0 \<Longrightarrow> emi + extra \<le> b0 * r \<Longrightarrow> b0 \<le> balance s \<Longrightarrow> months s \<le> 1000 \<Longrightarrow>
   months (payoff_loop r emi extra s) = 1000 \<and>
   b0 \<le> balance (payoff_loop r emi extra s) \<and>
   total_payment_with_prepay (payoff_loop r emi extra s)
     = total_payment_with_prepay s + real (1000 - months s) * (emi + extra)"
proof (induction r emi extra s rule: payoff_loop.induct)
  case (1 r emi extra s)
  show ?case
  proof (cases "balance s > 0 \<and> months s < 1000")
    case True
    from "1.prems"(1,4) have "b0 * r \<le> balance s * r"
      by (intro mult_right_mono)
    with "1.prems"(3) have "b0 \<le> balance (payoff_step r emi extra s)"
      using "1.prems"(4) by (simp add: payoff_step_def Let_def)
    moreover from True have "months (payoff_step r emi extra s) \<le> 1000"
      by (simp add: payoff_step_def Let_def)
    ultimately have ih:
      "months (payoff_loop r emi extra (payoff_step r emi extra s)) = 1000 \<and>
       b0 \<le> balance (payoff_loop r emi extra (payoff_step r emi extra s)) \<and>
       total_payment_with_prepay (payoff_loop r emi extra (payoff_step r emi extra s))
         = total_payment_with_prepay (payoff_step r emi extra s)
           + real (1000 - months (payoff_step r emi extra s)) * (emi + extra)"
      using "1.IH" [OF True "1.prems"(1,2,3)] by blast
    have unfold: "payoff_loop r emi extra s
                    = payoff_loop r emi extra (payoff_step r emi extra s)"
      using True by (subst payoff_loop.simps) simp
    from True have "real (1000 - months s) = 1 + real (1000 - Suc (months s))"
      by simp
    then have "total_payment_with_prepay (payoff_step r emi extra s)
                 + real (1000 - months (payoff_step r emi extra s)) * (emi + extra)
               = total_payment_with_prepay s + real (1000 - months s) * (emi + extra)"
      by (simp add: payoff_step_def Let_def algebra_simps)
    with ih show ?thesis unfolding unfold by simp
  next
    case False
    with "1.prems"(2,4,5) have "months s = 1000" by auto
    moreover from False have "payoff_loop r emi extra s = s"
      by (subst payoff_loop.simps) auto
    ultimately show ?thesis using "1.prems"(4) by simp
  qed
qed

lemma installment_bounds:
  fixes P r :: real
  assumes "0 < P" "0 < r" "0 < m"
  shows "0 < P * r * (1 + r) ^ m / ((1 + r) ^ m - 1)"
    and "P * r * (1 + r) ^ m / ((1 + r) ^ m - 1) \<le> P * r + P / real m"
proof -
  define pw where "pw = (1 + r) ^ m"
  have "1 + real m * r \<le> pw"
    unfolding pw_def using assms(2) by (intro Bernoulli_inequality) simp
  then have low: "real m * r \<le> pw - 1" by simp
  from assms have mr: "0 < real m * r" by simp
  with low have pos: "0 < pw - 1" by linarith
  with assms show "0 < P * r * (1 + r) ^ m / ((1 + r) ^ m - 1)"
    unfolding pw_def [symmetric] by simp
  have split: "P * r * pw / (pw - 1) = P * r + P * r / (pw - 1)"
    using pos by (simp add: field_simps)
  from assms have "0 \<le> P * r" by simp
  then have "P * r / (pw - 1) \<le> P * r / (real m * r)"
    using low mr by (intro divide_left_mono) simp_all
  also from assms have "\<dots> = P / real m" by simp
  finally show "P * r * (1 + r) ^ m / ((1 + r) ^ m - 1) \<le> P * r + P / real m"
    unfolding pw_def [symmetric] split by simp
qed

lemma calculate_emi_positive_rateD:
  assumes "0 < rate" "0 < years" "calculate_emi P rate years = Inr (emi, n, r)"
  shows "n = years * 12" and "r = rate / 1200"
    and "emi = P * r * (1 + r) ^ nat n / ((1 + r) ^ nat n - 1)"
proof -
  have "Inr (emi, n, r) = (Inr (P * (rate / 1200) * (1 + rate / 1200) ^ nat (years * 12)
                  / ((1 + rate / 1200) ^ nat (years * 12) - 1),
                years * 12, rate / 1200) :: py_error + real \<times> int \<times> real)"
    using calculate_emi_positive_rate [OF assms(1,2), of P] assms(3) by (simp only:)
  then show n: "n = years * 12" and r: "r = rate / 1200"
    and "emi = P * r * (1 + r) ^ nat n / ((1 + r) ^ nat n - 1)"
    by (simp_all only: sum.inject prod.inject)
qed

lemma scheduled_remaining_balance:
  assumes "0 < P" "0 < rate" "0 < years"
    and emi: "calculate_emi P rate years = Inr (emi, n, r)"
    and k: "0 \<le> k" "k \<le> n"
  shows "\<exists>bb. remaining_balance P r emi k = Inr bb \<and> 0 \<le> bb \<and> bb \<le> P"
proof -
  note d = calculate_emi_positive_rateD [OF assms(2,3) emi]
  define pw where "pw = (1 + r) ^ nat n"
  define x where "x = (1 + r) ^ nat k"
  from assms(2) d(2) have rpos: "0 < r" by simp
  from assms(3) d(1) have npos: "0 < nat n" by simp
  from rpos npos have pw: "1 < pw" unfolding pw_def by (intro one_less_power) auto
  from rpos have x1: "1 \<le> x" unfolding x_def by (intro one_le_power) simp
  from rpos k have xpw: "x \<le> pw" unfolding x_def pw_def by (intro power_increasing) auto
  have "remaining_balance P r emi (int (nat k)) = Inr (P * x - emi * (x - 1) / r)"
    unfolding x_def using rpos by (intro remaining_balance_closed_form) simp
  with k(1) have "remaining_balance P r emi k = Inr (P * x - emi * (x - 1) / r)" by simp
  also have "P * x - emi * (x - 1) / r = P * (pw - x) / (pw - 1)"
    unfolding d(3) pw_def [symmetric] using rpos pw by (intro scheduled_balance) simp_all
  finally have bb: "remaining_balance P r emi k = Inr (P * (pw - x) / (pw - 1))" .
  from assms(1) pw xpw have "0 \<le> P * (pw - x) / (pw - 1)" by simp
  moreover have "P * (pw - x) / (pw - 1) \<le> P"
  proof -
    from x1 have "pw - x \<le> pw - 1" by simp
    with pw have "(pw - x) / (pw - 1) \<le> 1" by (simp add: divide_le_eq)
    with assms(1) have "P * ((pw - x) / (pw - 1)) \<le> P * 1" by (intro mult_left_mono) simp_all
    then show ?thesis by simp
  qed
  ultimately show ?thesis using bb by blast
qed


lemma calculate_emi_InrD:
  assumes "calculate_emi P rate years = Inr (emi, n, r)"
  shows "n = years * 12" and "r = rate / 1200"
  using assms
  by (auto simp: calculate_emi_def Let_def and_then_def split: sum.splits if_splits)

lemma simulate_extra_payments_returns:
  assumes "0 < rate" "0 < years"
  shows "\<exists>d. simulate_extra_payments P rate years extra expected_return shock = Inr d"
proof -
  obtain v where "future_value_monthly_sip extra (if shock then 5 else expected_return)
                    (years * 12) = Inr v"
    using future_value_monthly_sip_returns [of "years * 12"] assms(2) by auto
  then show ?thesis
    by (simp add: simulate_extra_payments_def calculate_emi_positive_rate [OF assms]
                  prepay_vs_invest_def Let_def)
qed

lemma heat_cell_is_buy_vs_rent:
  assumes base: "calculate_emi loan_amount interest_rate remaining_years = Inr (emi_case, n_case, r0)"
    and rent: "npv_stream rent discount_rate n_case = Inr pv_rent"
  shows "heat_cell loan_amount remaining_years discount_rate n_case pv_rent g rate
           = buy_vs_rent loan_amount rate remaining_years rent discount_rate g"
proof (cases "calculate_emi loan_amount rate remaining_years")
  case (Inl e)
  then show ?thesis by (simp add: heat_cell_def buy_vs_rent_def)
next
  case (Inr t)
  obtain emi_t n_t r_t where t: "t = (emi_t, n_t, r_t)" by (cases t)
  from Inr t have "n_t = remaining_years * 12" by (simp add: calculate_emi_InrD(1))
  moreover from base have "n_case = remaining_years * 12" by (rule calculate_emi_InrD(1))
  ultimately have n: "n_t = n_case" by simp
  show ?thesis
  proof (cases "npv_stream emi_t discount_rate n_case")
    case (Inl e)
    with Inr t n show ?thesis by (simp add: heat_cell_def buy_vs_rent_def)
  next
    case pv: (Inr pv_buy_t)
    with Inr t n rent show ?thesis by (simp add: heat_cell_def buy_vs_rent_def)
  qed
qed

lemma heat_row_InrD:
  "heat_row loan_amount remaining_years discount_rate n_case pv_rent g rates = Inr row \<Longrightarrow>
   length row = length rates \<and>
   (\<forall>j < length rates.
      heat_cell loan_amount remaining_years discount_rate n_case pv_rent g (rates ! j)
        = Inr (row ! j))"
proof (induction rates arbitrary: row)
  case Nil
  then show ?case by simp
next
  case (Cons rate rates)
  from Cons.prems obtain v row' where
    v: "heat_cell loan_amount remaining_years discount_rate n_case pv_rent g rate = Inr v"
    and row': "heat_row loan_amount remaining_years discount_rate n_case pv_rent g rates = Inr row'"
    and row: "row = v # row'"
    by (auto simp: and_then_def split: sum.splits)
  from Cons.IH [OF row'] v row show ?case
    by (auto simp: nth_Cons split: nat.splits)
qed

lemma heat_rows_InrD:
  "heat_rows loan_amount remaining_years discount_rate n_case pv_rent rates gs = Inr heat \<Longrightarrow>
   length heat = length gs \<and>
   (\<forall>i < length gs.
      heat_row loan_amount remaining_years discount_rate n_case pv_rent (gs ! i) rates
        = Inr (heat ! i))"
proof (induction gs arbitrary: heat)
  case Nil
  then show ?case by simp
next
  case (Cons g gs)
  from Cons.prems obtain row heat' where
    v: "heat_row loan_amount remaining_years discount_rate n_case pv_rent g rates = Inr row"
    and rest: "heat_rows loan_amount remaining_years discount_rate n_case pv_rent rates gs = Inr heat'"
    and heat: "heat = row # heat'"
    by (auto simp: and_then_def split: sum.splits)
  from Cons.IH [OF rest] v heat show ?case
    by (auto simp: nth_Cons split: nat.splits)
qed

lemma length_linspace [simp]: "length (linspace start stop num) = num"
  by (simp add: linspace_def)

lemma npv_stream_returns:
  "0 \<le> discount_rate \<Longrightarrow> \<exists>v. npv_stream payment discount_rate k = Inr v"
  by (simp add: npv_stream_def fpow_def fdiv_def Let_def)

lemma resale_value_returns:
  assumes "0 \<le> discount_rate" "0 < remaining_years"
  shows "\<exists>v. resale_value loan_amount g discount_rate remaining_years = Inr v"
proof -
  from assms(1) have "0 < 1 + discount_rate / 100" by simp
  then have "(1 + discount_rate / 100) ^ nat remaining_years \<noteq> 0" by simp
  with assms(2) show ?thesis
    by (simp add: resale_value_def fpow_nonneg fdiv_def Let_def)
qed

lemma heat_cell_returns:
  assumes "0 \<le> discount_rate" "0 < remaining_years" "0 < rate"
  shows "\<exists>v. heat_cell loan_amount remaining_years discount_rate n_case pv_rent g rate = Inr v"
proof -
  obtain emi where "calculate_emi loan_amount rate remaining_years
                      = Inr (emi, remaining_years * 12, rate / 1200)"
    using calculate_emi_positive_rate [OF assms(3,2)] by blast
  moreover obtain pv where "npv_stream emi discount_rate n_case = Inr pv"
    using npv_stream_returns [OF assms(1)] by blast
  moreover obtain rs where "resale_value loan_amount g discount_rate remaining_years = Inr rs"
    using resale_value_returns [OF assms(1,2)] by blast
  ultimately show ?thesis by (simp add: heat_cell_def)
qed

lemma heat_row_returns:
  assumes "0 \<le> discount_rate" "0 < remaining_years"
  shows "(\<And>rate. rate \<in> set rates \<Longrightarrow> 0 < rate) \<Longrightarrow>
         \<exists>row. heat_row loan_amount remaining_years discount_rate n_case pv_rent g rates = Inr row"
proof (induction rates)
  case Nil
  show ?case by simp
next
  case (Cons rate rates)
  obtain v where "heat_cell loan_amount remaining_years discount_rate n_case pv_rent g rate = Inr v"
    using heat_cell_returns [OF assms] Cons.prems by (meson list.set_intros(1))
  moreover obtain row where
    "heat_row loan_amount remaining_years discount_rate n_case pv_rent g rates = Inr row"
    using Cons.IH Cons.prems by (meson list.set_intros(2))
  ultimately show ?case by simp
qed

lemma heat_rows_returns:
  assumes "0 \<le> discount_rate" "0 < remaining_years" "\<And>rate. rate \<in> set rates \<Longrightarrow> 0 < rate"
  shows "\<exists>heat. heat_rows loan_amount remaining_years discount_rate n_case pv_rent rates gs
                  = Inr heat"
proof (induction gs)
  case Nil
  show ?case by simp
next
  case (Cons g gs)
  obtain row where
    "heat_row loan_amount remaining_years discount_rate n_case pv_rent g rates = Inr row"
    using heat_row_returns [OF assms(1,2)] assms(3) by metis
  with Cons show ?case by auto
qed

lemma linspace_positive:
  assumes "0 < start" "start \<le> stop" "rate \<in> set (linspace start stop num)"
  shows "0 < rate"
proof -
  from assms(3) have "rate \<in> (\<lambda>i. start + real i * ((stop - start) / real (num - 1)))
                            ` set [0..<num]"
    unfolding linspace_def set_map .
  then obtain i where "rate = start + real i * ((stop - start) / real (num - 1))"
    by blast
  moreover from assms(2) have "0 \<le> real i * ((stop - start) / real (num - 1))" by simp
  ultimately show ?thesis using assms(1) by (simp only: add_pos_nonneg)
qed

lemma case_scenarios_returns:
  assumes "0 < interest_rate" "0 < remaining_years" "0 \<le> discount_rate"
  shows "\<exists>diff vals heat.
           case_scenarios loan_amount interest_rate remaining_years rent discount_rate price_growth
             = Inr (diff, vals, heat)"
proof -
  obtain emi where emi: "calculate_emi loan_amount interest_rate remaining_years
                      = Inr (emi, remaining_years * 12, interest_rate / 1200)"
    using calculate_emi_positive_rate [OF assms(1,2)] by blast
  obtain pv_buy where buy: "npv_stream emi discount_rate (remaining_years * 12) = Inr pv_buy"
    using npv_stream_returns [OF assms(3)] by blast
  obtain pv_rent where rent: "npv_stream rent discount_rate (remaining_years * 12) = Inr pv_rent"
    using npv_stream_returns [OF assms(3)] by blast
  obtain rs where rs: "resale_value loan_amount price_growth discount_rate remaining_years = Inr rs"
    using resale_value_returns [OF assms(3,2)] by blast
  have "\<exists>vals. heat_row loan_amount remaining_years discount_rate (remaining_years * 12) pv_rent
                 price_growth (linspace 2 15 25) = Inr vals"
    by (rule heat_row_returns [OF assms(3,2)]) (rule linspace_positive [of 2 15], simp_all)
  then obtain vals where vals:
    "heat_row loan_amount remaining_years discount_rate (remaining_years * 12) pv_rent
       price_growth (linspace 2 15 25) = Inr vals" by blast
  have "\<exists>heat. heat_rows loan_amount remaining_years discount_rate (remaining_years * 12) pv_rent
                 (linspace 5 15 12) (linspace 0 10 12) = Inr heat"
    by (rule heat_rows_returns [OF assms(3,2)]) (rule linspace_positive [of 5 15], simp_all)
  then obtain heat where heat:
    "heat_rows loan_amount remaining_years discount_rate (remaining_years * 12) pv_rent
       (linspace 5 15 12) (linspace 0 10 12) = Inr heat" by blast
  from emi buy rent rs vals heat show ?thesis
    by (simp add: case_scenarios_def Let_def)
qed

subsection \<open>Rounding to a double\<close>







lemma fl_0 [simp]: "fl 0 = 0"
  by (simp add: fl_def)



















section \<open>Outstanding balance at a zero rate\<close>

text \<open>
  C1.  The claim: for every principal > 0, rate >= 0 and years > 0 the outstanding
  balance is defined and equals the principal at 0 elapsed months, and at a zero
  periodic rate it is principal - installment * k.  The code divides by the periodic
  rate without the zero test that \<open>calculate_emi\<close> makes: for the loan of 500000 at
  0 percent over 5 years the installment is 500000/60 and the balance raises
  \<open>ZeroDivisionError\<close>, at 0 elapsed months and at 12.
\<close>

theorem remaining_balance_zero_rate_raises:
  "calculate_emi 500000 0 5 = Inr (25000 / 3, 60, 0) \<and>
   remaining_balance 500000 0 (25000 / 3) 0 = Inl ZeroDivisionError \<and>
   remaining_balance 500000 0 (25000 / 3) 12 = Inl ZeroDivisionError"
  by (simp add: calculate_emi_def remaining_balance_def and_then_def fdiv_def fpow_def)

section \<open>When the installment computation fails\<close>




section \<open>The scheduled payments cover the principal\<close>




section \<open>The closed-form balance and the month-by-month loop\<close>




section \<open>No extra payment: the original schedule\<close>


section \<open>The iteration cap of the pay-down loop\<close>

text \<open>
  C4.  The claim: when the loop reaches its 1000 iterations with the balance still
  positive, the simulation reports PayoffNotConverged instead of an ordinary result
  with 1000 months.  The code has no such outcome: with an extra payment of -20000 a
  month on the loan of 500000 at 10 percent over 5 years the payment stays below the
  interest, the loop runs to the cap, and the block returns normally with
  months = 1000 and a positive balance.
\<close>

theorem payoff_cap_returned_as_months:
  "\<not> isl (simulate_extra_payments 500000 10 5 (- 20000) 12 False) \<and>
   months (loop_end (projr (simulate_extra_payments 500000 10 5 (- 20000) 12 False))) = 1000 \<and>
   0 < balance (loop_end (projr (simulate_extra_payments 500000 10 5 (- 20000) 12 False)))"
proof -
  define emi :: real where
    "emi = 500000 * (10 / 1200) * (1 + 10 / 1200) ^ nat (5 * 12)
             / ((1 + 10 / 1200) ^ nat (5 * 12) - 1)"
  have emi: "calculate_emi 500000 10 5 = Inr (emi, 5 * 12, 10 / 1200)"
    unfolding emi_def by (rule calculate_emi_positive_rate) simp_all
  have "emi \<le> 500000 * (10 / 1200) + 500000 / real (nat (5 * 12))"
    unfolding emi_def by (rule installment_bounds) simp_all
  then have small: "emi + - 20000 \<le> 500000 * (10 / 1200)"
    by simp
  define s where "s = payoff_loop (10 / 1200) emi (- 20000) (payoff_start 500000)"
  have "months s = 1000 \<and> 500000 \<le> balance s"
    using payoff_loop_never_pays_off [OF _ _ small, of "payoff_start 500000"]
    by (simp add: s_def payoff_start_def)
  then have s: "months s = 1000" "0 < balance s" by simp_all
  obtain v where v: "future_value_monthly_sip (- 20000) 12 (5 * 12) = Inr v"
    using future_value_monthly_sip_returns [of "5 * 12" "- 20000" 12] by auto
  have "simulate_extra_payments 500000 10 5 (- 20000) 12 False
          = Inr \<lparr>loop_end = s,
                 years_saved = of_int (5 * 12 - int (months s)) / 12,
                 interest_saved = (emi * of_int (5 * 12) - 500000)
                                    - (total_payment_with_prepay s - 500000),
                 fv = v,
                 verdict = (if v > (emi * of_int (5 * 12) - 500000)
                                    - (total_payment_with_prepay s - 500000)
                            then INVESTING_wins else PREPAYING_wins)\<rparr>"
    using v by (simp add: simulate_extra_payments_def emi prepay_vs_invest_def Let_def s_def)
  with s show ?thesis by simp
qed

text \<open>
  C4, as the code has it: for a tenure n >= 0 the block always returns an ordinary
  result, built from the state the loop ends in; when that state still has a positive
  balance the loop has reached its cap and the result carries months = 1000.  This is
  what happens whenever the first payment does not exceed the interest on the loan
  (r >= 0, loan > 0, emi + extra <= loan * r): then the balance never falls below
  the loan amount.
\<close>

theorem payoff_cap_is_an_ordinary_result:
  assumes "0 \<le> n"
  shows "\<exists>d. prepay_vs_invest loan_amount emi n r extra_monthly expected_return shock = Inr d \<and>
             loop_end d = payoff_loop r emi extra_monthly (payoff_start loan_amount) \<and>
             (0 < balance (loop_end d) \<longrightarrow> months (loop_end d) = 1000) \<and>
             (0 \<le> r \<and> 0 < loan_amount \<and> emi + extra_monthly \<le> loan_amount * r \<longrightarrow>
                months (loop_end d) = 1000 \<and> loan_amount \<le> balance (loop_end d))"
proof -
  define s where "s = payoff_loop r emi extra_monthly (payoff_start loan_amount)"
  obtain v where v: "future_value_monthly_sip extra_monthly
                       (if shock then 5 else expected_return) n = Inr v"
    using future_value_monthly_sip_returns [OF assms] by blast
  have cap: "0 < balance s \<longrightarrow> months s = 1000"
    using payoff_loop_exit [of "payoff_start loan_amount" r emi extra_monthly]
    by (auto simp: s_def payoff_start_def)
  have stuck: "0 \<le> r \<and> 0 < loan_amount \<and> emi + extra_monthly \<le> loan_amount * r \<longrightarrow>
                 months s = 1000 \<and> loan_amount \<le> balance s"
    using payoff_loop_never_pays_off [of r loan_amount emi extra_monthly "payoff_start loan_amount"]
    by (auto simp: s_def payoff_start_def)
  from v cap stuck show ?thesis
    by (simp add: prepay_vs_invest_def Let_def s_def)
qed

theorem payoff_cap_is_an_ordinary_result_witness:
  "(0::int) \<le> 60 \<and>
   (\<exists>d. prepay_vs_invest 500000 10000 60 (1 / 100) (- 20000) 12 False = Inr d \<and>
        0 < balance (loop_end d) \<and> months (loop_end d) = 1000)"
proof -
  have n: "(0::int) \<le> 60" by simp
  from payoff_cap_is_an_ordinary_result [OF n, of 500000 10000 "1 / 100" "- 20000" 12 False]
  obtain d where d: "prepay_vs_invest 500000 10000 60 (1 / 100) (- 20000) 12 False = Inr d"
    and stuck: "0 \<le> (1 / 100 :: real) \<and> (0::real) < 500000 \<and>
                  10000 + - 20000 \<le> (500000::real) * (1 / 100) \<longrightarrow>
                months (loop_end d) = 1000 \<and> 500000 \<le> balance (loop_end d)"
    by blast
  from stuck have "months (loop_end d) = 1000 \<and> 500000 \<le> balance (loop_end d)" by simp
  then have "0 < balance (loop_end d) \<and> months (loop_end d) = 1000" by simp
  with d n show ?thesis by blast
qed

section \<open>A prepayment that clears the balance\<close>

text \<open>
  C5.  The claim: when the prepayment meets or exceeds the balance before it, the
  block reports a new tenure of 0 months and the full remaining interest as saved.
  The code shows its metrics only under \<open>if new_balance > 0\<close>: prepaying 500000
  after 2 years on the loan of 500000 at 10 percent over 5 years shows nothing.
\<close>

theorem full_prepayment_shows_nothing:
  "prepayment_impact 500000 10 5 2 500000 = Inr None"
proof -
  have "\<exists>emi. calculate_emi 500000 10 5 = Inr (emi, 5 * 12, 10 / 1200)"
    by (rule exI, rule calculate_emi_positive_rate) simp_all
  then obtain emi where emi: "calculate_emi 500000 10 5 = Inr (emi, 5 * 12, 10 / 1200)"
    by blast
  have "\<exists>bb. remaining_balance 500000 (10 / 1200) emi (2 * 12) = Inr bb \<and> 0 \<le> bb \<and> bb \<le> 500000"
    by (rule scheduled_remaining_balance [OF _ _ _ emi]) simp_all
  then obtain bb where bb: "remaining_balance 500000 (10 / 1200) emi (2 * 12) = Inr bb"
    and le: "bb \<le> 500000" by blast
  from bb le have "prepayment 500000 emi (5 * 12) (10 / 1200) 2 500000 = Inr None"
    by (simp add: prepayment_def Let_def)
  with emi show ?thesis by (simp add: prepayment_impact_def)
qed

text \<open>
  C5, as the code has it: the block produces no outcome exactly when the balance
  before the prepayment is computed without a fault and the prepayment meets or
  exceeds it.
\<close>

theorem prepayment_no_outcome_iff:
  "prepayment loan_amount emi n r prepay_year prepay_amount = Inr None \<longleftrightarrow>
     (\<exists>balance_before. remaining_balance loan_amount r emi (prepay_year * 12) = Inr balance_before
                       \<and> balance_before - prepay_amount \<le> 0)"
  by (auto simp: prepayment_def Let_def and_then_def split: sum.splits if_splits)

section \<open>An installment that does not cover the interest\<close>




section \<open>The verdict of prepay versus invest\<close>

text \<open>
  C10.  Whenever the comparison returns, the investment value it reports is the future
  value of the extra monthly amount at the expected return (5 once the recession button
  is pressed) over the full tenure of years * 12 months, whatever number of months the
  simulated pay-down took, and the verdict is INVESTING wins exactly when that value
  strictly exceeds the interest saved (PREPAYING wins otherwise).
\<close>

theorem investment_runs_the_full_tenure:
  assumes "simulate_extra_payments loan_amount interest_rate remaining_years extra_monthly
             expected_return shock = Inr d"
  shows "future_value_monthly_sip extra_monthly (if shock then 5 else expected_return)
           (remaining_years * 12) = Inr (fv d) \<and>
         (verdict d = INVESTING_wins \<longleftrightarrow> interest_saved d < fv d) \<and>
         (verdict d = PREPAYING_wins \<longleftrightarrow> fv d \<le> interest_saved d)"
proof -
  from assms obtain emi n r where
    emi: "calculate_emi loan_amount interest_rate remaining_years = Inr (emi, n, r)"
    and d: "prepay_vs_invest loan_amount emi n r extra_monthly expected_return shock = Inr d"
    by (auto simp: simulate_extra_payments_def and_then_def split: sum.splits)
  from emi have n: "n = remaining_years * 12" by (rule calculate_emi_InrD)
  from d show ?thesis unfolding n
    by (auto simp: prepay_vs_invest_def Let_def and_then_def split: sum.splits if_splits)
qed

theorem investment_runs_the_full_tenure_witness:
  "\<exists>d. simulate_extra_payments 500000 10 5 5000 12 False = Inr d \<and>
       future_value_monthly_sip 5000 (if False then 5 else 12) (5 * 12) = Inr (fv d) \<and>
       (verdict d = INVESTING_wins \<longleftrightarrow> interest_saved d < fv d) \<and>
       (verdict d = PREPAYING_wins \<longleftrightarrow> fv d \<le> interest_saved d)"
proof -
  obtain d where d: "simulate_extra_payments 500000 10 5 5000 12 False = Inr d"
    using simulate_extra_payments_returns [of 10 5 500000 5000 12 False] by auto
  from d investment_runs_the_full_tenure [OF d] show ?thesis by blast
qed

section \<open>The heat map against the single evaluation\<close>

text \<open>
  C6.  Whenever the case block returns, its heat map has 12 rows of 12 cells, and the
  cell in row i and column j is the buy-versus-rent differential evaluated once with
  the loan rate set to the j-th sampled rate and the price growth set to the i-th
  sampled growth, every other input unchanged (the rent stream's present value, computed
  once before the loops, is the one that evaluation computes); the differential shown
  above the map is that evaluation at the inputs themselves.
\<close>

theorem heat_map_cell_is_single_evaluation:
  assumes "case_scenarios loan_amount interest_rate remaining_years rent discount_rate price_growth
             = Inr (diff, vals, heat)"
    and "i < 12" and "j < 12"
  shows "length heat = 12 \<and> length (heat ! i) = 12 \<and>
         buy_vs_rent loan_amount (linspace 5 15 12 ! j) remaining_years rent discount_rate
             (linspace 0 10 12 ! i)
           = Inr (heat ! i ! j) \<and>
         buy_vs_rent loan_amount interest_rate remaining_years rent discount_rate price_growth
           = Inr diff"
proof -
  from assms(1) obtain emi_case n_case r0 pv_buy pv_rent pv_resale where
    base: "calculate_emi loan_amount interest_rate remaining_years = Inr (emi_case, n_case, r0)"
    and buy: "npv_stream emi_case discount_rate n_case = Inr pv_buy"
    and rent: "npv_stream rent discount_rate n_case = Inr pv_rent"
    and resale: "resale_value loan_amount price_growth discount_rate remaining_years = Inr pv_resale"
    and diff: "diff = (pv_buy - pv_resale) - pv_rent"
    and heat: "heat_rows loan_amount remaining_years discount_rate n_case pv_rent
                 (linspace 5 15 12) (linspace 0 10 12) = Inr heat"
    by (auto simp: case_scenarios_def Let_def and_then_def split: sum.splits)
  from heat_rows_InrD [OF heat] assms(2)
  have len: "length heat = 12"
    and row: "heat_row loan_amount remaining_years discount_rate n_case pv_rent
                (linspace 0 10 12 ! i) (linspace 5 15 12) = Inr (heat ! i)"
    by simp_all
  from heat_row_InrD [OF row] assms(3)
  have len_row: "length (heat ! i) = 12"
    and cell: "heat_cell loan_amount remaining_years discount_rate n_case pv_rent
                 (linspace 0 10 12 ! i) (linspace 5 15 12 ! j) = Inr (heat ! i ! j)"
    by simp_all
  from cell have "buy_vs_rent loan_amount (linspace 5 15 12 ! j) remaining_years rent
                    discount_rate (linspace 0 10 12 ! i) = Inr (heat ! i ! j)"
    by (simp only: heat_cell_is_buy_vs_rent [OF base rent])
  moreover from base buy rent resale diff
  have "buy_vs_rent loan_amount interest_rate remaining_years rent discount_rate price_growth
          = Inr diff"
    by (simp add: buy_vs_rent_def)
  ultimately show ?thesis using len len_row by blast
qed

theorem heat_map_cell_is_single_evaluation_witness:
  "\<exists>diff vals heat.
     case_scenarios 500000 10 5 8000 8 3 = Inr (diff, vals, heat) \<and>
     (11::nat) < 12 \<and> (3::nat) < 12 \<and>
     length heat = 12 \<and> length (heat ! 11) = 12 \<and>
     buy_vs_rent 500000 (linspace 5 15 12 ! 3) 5 8000 8 (linspace 0 10 12 ! 11)
       = Inr (heat ! 11 ! 3) \<and>
     buy_vs_rent 500000 10 5 8000 8 3 = Inr diff"
proof -
  obtain diff vals heat where ok: "case_scenarios 500000 10 5 8000 8 3 = Inr (diff, vals, heat)"
    using case_scenarios_returns [of 10 5 8 500000 8000 3] by auto
  have i: "(11::nat) < 12" and j: "(3::nat) < 12" by simp_all
  from heat_map_cell_is_single_evaluation [OF ok i j] ok i j show ?thesis by blast
qed

end
